theory Spec2Isabelle
  imports Main "HOL-Library.Word" "HOL-Library.Sublist"
begin

section \<open>Tufao::SessionSettings (src/sessionsettings.h)\<close>

subsection \<open>The Qt value types the header uses\<close>

text \<open>
  \<^verbatim>\<open>QByteArray\<close> is a sequence of bytes; \<^typ>\<open>string\<close> is a list of 8-bit characters.
  \<^verbatim>\<open>QByteArray()\<close> is the empty array and \<^verbatim>\<open>isEmpty()\<close> tests for size 0.
\<close>

type_synonym QByteArray = string

definition QByteArray_empty :: QByteArray where
  "QByteArray_empty = []"

definition isEmpty :: "QByteArray \<Rightarrow> bool" where
  "isEmpty ba = (length ba = 0)"

text \<open>
  \<^verbatim>\<open>QByteArray::startsWith(ba)\<close> compares the first \<^verbatim>\<open>ba.size()\<close> bytes, after
  checking that there are that many; \<^verbatim>\<open>QByteArray::mid(pos)\<close> is the array from position
  \<^verbatim>\<open>pos\<close> to the end (empty when \<^verbatim>\<open>pos\<close> is past the end).
\<close>

definition startsWith :: "QByteArray \<Rightarrow> QByteArray \<Rightarrow> bool" where
  "startsWith this ba = (length ba \<le> length this \<and> take (length ba) this = ba)"

definition mid :: "QByteArray \<Rightarrow> nat \<Rightarrow> QByteArray" where
  "mid this pos = drop pos this"

text \<open>
  \<^verbatim>\<open>QDateTime\<close>: a UTC instant, held as Qt holds it, in milliseconds since the epoch.
  \<^verbatim>\<open>addSecs(s)\<close> moves it by \<^verbatim>\<open>s\<close> seconds. The clock itself
  (\<^verbatim>\<open>QDateTime::currentDateTimeUtc()\<close>) is the only thing the header reads from its
  environment; the functions below take its reading as their first argument.
\<close>

type_synonym QDateTime = int

definition addSecs :: "QDateTime \<Rightarrow> int \<Rightarrow> QDateTime" where
  "addSecs this s = this + s * 1000"

text \<open>
  Modelled from the spec: \<^verbatim>\<open>QNetworkCookie\<close> is a class of QtNetwork, declared outside
  this header. Its state is the record of the attributes that the specification's data
  model lists for a cookie (name, value, optional expiration, httpOnly, secure, optional
  path, optional domain): an attribute that was never set is \<^term>\<open>None\<close> (Qt: an invalid
  \<^verbatim>\<open>QDateTime\<close>, a null string). A default-constructed cookie has nothing set and both
  flags false; every setter overwrites its own attribute and nothing else. Domain and
  path are kept as the bytes handed to the setter: the conversion to \<^verbatim>\<open>QString\<close> that Qt
  applies to them is not part of this model.
\<close>

record QNetworkCookie =
  ck_name :: QByteArray
  ck_value :: QByteArray
  ck_expirationDate :: "QDateTime option"
  ck_httpOnly :: bool
  ck_secure :: bool
  ck_domain :: "QByteArray option"
  ck_path :: "QByteArray option"

definition QNetworkCookie_new :: QNetworkCookie where
  "QNetworkCookie_new =
     \<lparr>ck_name = QByteArray_empty, ck_value = QByteArray_empty, ck_expirationDate = None,
      ck_httpOnly = False, ck_secure = False, ck_domain = None, ck_path = None\<rparr>"

definition setExpirationDate :: "QDateTime \<Rightarrow> QNetworkCookie \<Rightarrow> QNetworkCookie" where
  "setExpirationDate d c = c\<lparr>ck_expirationDate := Some d\<rparr>"

definition setHttpOnly :: "bool \<Rightarrow> QNetworkCookie \<Rightarrow> QNetworkCookie" where
  "setHttpOnly b c = c\<lparr>ck_httpOnly := b\<rparr>"

definition setSecure :: "bool \<Rightarrow> QNetworkCookie \<Rightarrow> QNetworkCookie" where
  "setSecure b c = c\<lparr>ck_secure := b\<rparr>"

definition setDomain :: "QByteArray \<Rightarrow> QNetworkCookie \<Rightarrow> QNetworkCookie" where
  "setDomain d c = c\<lparr>ck_domain := Some d\<rparr>"

definition setPath :: "QByteArray \<Rightarrow> QNetworkCookie \<Rightarrow> QNetworkCookie" where
  "setPath p c = c\<lparr>ck_path := Some p\<rparr>"

definition setName :: "QByteArray \<Rightarrow> QNetworkCookie \<Rightarrow> QNetworkCookie" where
  "setName n c = c\<lparr>ck_name := n\<rparr>"

definition setValue :: "QByteArray \<Rightarrow> QNetworkCookie \<Rightarrow> QNetworkCookie" where
  "setValue v c = c\<lparr>ck_value := v\<rparr>"

subsection \<open>struct SessionSettings\<close>

text \<open>
  The fields in the order of the header. \<^verbatim>\<open>int timeout\<close> is a 32-bit two's complement
  integer: \<^term>\<open>sint\<close> reads its value, and \<open>*\<close> on it wraps modulo \<open>2 ^ 32\<close>.
\<close>

record SessionSettings =
  timeout :: "32 word"
  httpOnly :: bool
  name :: QByteArray
  path :: QByteArray
  secure :: bool
  domain :: QByteArray

text \<open>
  \<^verbatim>\<open>static QNetworkCookie cookie(const SessionSettings &settings,
                                    const QByteArray &value = QByteArray())\<close>
  (lines 69-87). The statements on the local \<^verbatim>\<open>cookie\<close> run top to bottom; the product
  \<^verbatim>\<open>settings.timeout * 60\<close> is taken in \<^verbatim>\<open>int\<close> and then passed to \<^verbatim>\<open>addSecs\<close>.
\<close>

definition cookie_static :: "QDateTime \<Rightarrow> SessionSettings \<Rightarrow> QByteArray \<Rightarrow> QNetworkCookie" where
  "cookie_static currentDateTimeUtc settings val =
     (let cookie = QNetworkCookie_new;
          cookie = (if timeout settings \<noteq> 0
                    then setExpirationDate
                           (addSecs currentDateTimeUtc (sint (timeout settings * 60))) cookie
                    else cookie);
          cookie = setHttpOnly (httpOnly settings) cookie;
          cookie = setSecure (secure settings) cookie;
          cookie = (if \<not> isEmpty (domain settings) then setDomain (domain settings) cookie
                    else cookie);
          cookie = (if \<not> isEmpty (path settings) then setPath (path settings) cookie
                    else cookie);
          cookie = setName (name settings) cookie;
          cookie = setValue val cookie
      in cookie)"

text \<open>The same function called without its second argument: the default is \<^verbatim>\<open>QByteArray()\<close>.\<close>

definition cookie_static_default :: "QDateTime \<Rightarrow> SessionSettings \<Rightarrow> QNetworkCookie" where
  "cookie_static_default currentDateTimeUtc settings =
     cookie_static currentDateTimeUtc settings QByteArray_empty"

text \<open>
  \<^verbatim>\<open>QNetworkCookie cookie(const QByteArray &value = QByteArray()) const\<close> (lines 60-63):
  the member function, \<^verbatim>\<open>return cookie(*this, value);\<close>, and its call without argument.
\<close>

definition cookie :: "QDateTime \<Rightarrow> SessionSettings \<Rightarrow> QByteArray \<Rightarrow> QNetworkCookie" where
  "cookie currentDateTimeUtc this val = cookie_static currentDateTimeUtc this val"

definition cookie_default :: "QDateTime \<Rightarrow> SessionSettings \<Rightarrow> QNetworkCookie" where
  "cookie_default currentDateTimeUtc this = cookie currentDateTimeUtc this QByteArray_empty"

text \<open>
  The rule in the documentation of \<^verbatim>\<open>path\<close> (lines 122-127): the cookie is included in a
  request if \<^verbatim>\<open>cookiePath == requestPath\<close>, or \<^verbatim>\<open>requestPath.startsWith(cookiePath)\<close>, or
  \<^verbatim>\<open>requestPath[0] == '/' && requestPath.mid(1).startsWith(cookiePath)\<close>. An empty
  \<^verbatim>\<open>requestPath\<close> has no byte 0 that could be a slash.
\<close>

definition path_included :: "QByteArray \<Rightarrow> QByteArray \<Rightarrow> bool" where
  "path_included cookiePath requestPath =
     (cookiePath = requestPath
      \<or> startsWith requestPath cookiePath
      \<or> ((case requestPath of [] \<Rightarrow> False | c # _ \<Rightarrow> c = CHR ''/'')
         \<and> startsWith (mid requestPath 1) cookiePath))"

text \<open>
  The rule in the words of the specification: the request path equals the cookie path, or
  starts with it, or starts with a slash and, with its first character removed, starts
  with the cookie path.
\<close>

definition spec_path_applicable :: "QByteArray \<Rightarrow> QByteArray \<Rightarrow> bool" where
  "spec_path_applicable cookiePath requestPath =
     (requestPath = cookiePath
      \<or> prefix cookiePath requestPath
      \<or> (prefix ''/'' requestPath \<and> prefix cookiePath (tl requestPath)))"

section \<open>Properties\<close>

lemmas setters =
  setExpirationDate_def setHttpOnly_def setSecure_def setDomain_def setPath_def
  setName_def setValue_def QNetworkCookie_new_def isEmpty_def QByteArray_empty_def

text \<open>
  C3. For every policy and value, whatever the two boolean fields are, the derived cookie's
  httpOnly flag equals the policy's httpOnly and its secure flag equals the policy's secure.
\<close>

theorem cookie_flags:
  "ck_httpOnly (cookie_static now settings val) = httpOnly settings
   \<and> ck_secure (cookie_static now settings val) = secure settings"
  by (simp add: cookie_static_def Let_def setters)

subsection \<open>Arithmetic of the expiration offset\<close>

text \<open>
  \<^verbatim>\<open>INT_MAX / 60\<close> is 35791394. Up to that magnitude the \<^verbatim>\<open>int\<close> product
  \<^verbatim>\<open>timeout * 60\<close> is the product of the integers; beyond it the product leaves the range
  of \<^verbatim>\<open>int\<close> and the 32-bit result is a different number, congruent modulo \<open>2 ^ 32\<close>.
\<close>

lemma timeout_product_exact:
  fixes t :: "32 word"
  assumes "- 35791394 \<le> sint t" and "sint t \<le> 35791394"
  shows "sint (t * 60) = sint t * 60"
proof -
  have "sint (t * 60) = signed_take_bit 31 (sint t * sint (60 :: 32 word))"
    using sint_word_mult [of t 60] by simp
  also have "sint (60 :: 32 word) = 60" by simp
  also have "signed_take_bit 31 (sint t * 60) = sint t * 60"
    using assms by (intro signed_take_bit_int_eq_self) simp_all
  finally show ?thesis .
qed

lemma timeout_product_wrapped:
  fixes t :: "32 word"
  assumes "35791394 < \<bar>sint t\<bar>"
  shows "sint (t * 60) \<noteq> sint t * 60"
proof -
  have lo: "- (2 ^ 31) \<le> sint (t * 60)" using sint_ge [of "t * 60"] by simp
  have hi: "sint (t * 60) < 2 ^ 31" using sint_lt [of "t * 60"] by simp
  from assms have "sint t * 60 < - (2 ^ 31) \<or> 2 ^ 31 \<le> sint t * 60" by auto
  with lo hi show ?thesis by auto
qed

lemma timeout_product_mod:
  fixes t :: "32 word"
  shows "sint (t * 60) mod 2 ^ 32 = (sint t * 60) mod 2 ^ 32"
proof -
  have u: "sint w mod 2 ^ 32 = uint w" for w :: "32 word"
    using uint_sint [of w] by (simp add: take_bit_eq_mod)
  have "sint (t * 60) mod 2 ^ 32 = uint (t * 60)" by (rule u)
  also have "\<dots> = (uint t * 60) mod 2 ^ 32"
    using uint_word_ariths(3) [of t 60] by simp
  also have "\<dots> = ((sint t mod 2 ^ 32) * 60) mod 2 ^ 32" by (simp only: u)
  also have "\<dots> = (sint t * 60) mod 2 ^ 32" by (rule mod_mult_left_eq)
  finally show ?thesis .
qed

lemma sint_nonzero:
  fixes t :: "32 word"
  shows "sint t \<noteq> 0 \<Longrightarrow> t \<noteq> 0"
  by auto

lemma expiration_of_cookie:
  "ck_expirationDate (cookie_static now settings val) =
     (if timeout settings = 0 then None
      else Some (addSecs now (sint (timeout settings * 60))))"
  by (simp add: cookie_static_def Let_def setters)

lemma addSecs_inject: "(addSecs now a = addSecs now b) = (a = b)"
  by (simp add: addSecs_def)

lemma addSecs_clock: "(addSecs now a = addSecs now' a) = (now = now')"
  by (simp add: addSecs_def)

lemma addSecs_before: "(addSecs now a < now) = (a < 0)"
  by (simp add: addSecs_def)

subsection \<open>Expiration\<close>

text \<open>
  Where the product does not overflow, the function does what the documentation of
  \<^verbatim>\<open>timeout\<close> ("a timeout specified in minutes", renewed at every cookie) says: the
  expiration is set if and only if the timeout is not 0; for a timeout of at most
  \<^verbatim>\<open>INT_MAX / 60\<close> in magnitude it is the clock reading of this call plus 60 times the
  timeout in seconds; and two calls at different clock readings give different
  expirations.
\<close>

lemma cookie_expiration_in_range:
  "(ck_expirationDate (cookie_static now settings val) \<noteq> None) = (timeout settings \<noteq> 0)
   \<and> (timeout settings \<noteq> 0 \<and> - 35791394 \<le> sint (timeout settings)
        \<and> sint (timeout settings) \<le> 35791394 \<longrightarrow>
        ck_expirationDate (cookie_static now settings val)
          = Some (addSecs now (sint (timeout settings) * 60)))
   \<and> (timeout settings \<noteq> 0 \<and> now \<noteq> now' \<longrightarrow>
        ck_expirationDate (cookie_static now settings val)
          \<noteq> ck_expirationDate (cookie_static now' settings val))"
  by (simp add: expiration_of_cookie timeout_product_exact addSecs_clock)

text \<open>
  C1. The claim: for every policy and value, the derived cookie has an expiration set if
  and only if the timeout is not 0, and when set it is the clock reading of the call plus
  \<open>timeout * 60\<close> seconds. The code at a timeout of 35791395 minutes, the first one whose
  product overflows \<^verbatim>\<open>int\<close>: a call at clock reading 0 sets the expiration 2147483596
  seconds before the clock reading, where the claim has it 2147483700 seconds after.
\<close>

theorem cookie_expiration_overflow:
  "ck_expirationDate
     (cookie_static 0 \<lparr>timeout = 35791395, httpOnly = True, name = ''sid'', path = ''/'',
                       secure = True, domain = []\<rparr> ''xyz'')
     = Some (addSecs 0 (- 2147483596))
   \<and> addSecs 0 (- 2147483596) < 0
   \<and> addSecs 0 (sint (35791395 :: 32 word) * 60) = addSecs 0 2147483700
   \<and> addSecs 0 (- 2147483596) \<noteq> addSecs 0 2147483700"
  by (simp add: expiration_of_cookie addSecs_def)

text \<open>
  For a strictly negative timeout the expiration is set (the guard tests non-zero, not
  positive), and from \<^verbatim>\<open>-(INT_MAX / 60)\<close> to -1 it lies strictly before the clock reading
  of the call.
\<close>

lemma cookie_negative_timeout_in_range:
  assumes neg: "sint (timeout settings) < 0"
  shows "ck_expirationDate (cookie_static now settings val) \<noteq> None
     \<and> (- 35791394 \<le> sint (timeout settings) \<longrightarrow>
          ck_expirationDate (cookie_static now settings val)
            = Some (addSecs now (sint (timeout settings) * 60))
          \<and> addSecs now (sint (timeout settings) * 60) < now)"
proof -
  from neg have nz: "timeout settings \<noteq> 0" by (intro sint_nonzero) simp
  have "sint (timeout settings * 60) = sint (timeout settings) * 60"
    if "- 35791394 \<le> sint (timeout settings)"
    using that neg by (intro timeout_product_exact) simp_all
  with nz neg show ?thesis by (simp add: expiration_of_cookie addSecs_before)
qed

text \<open>
  C9. The claim: for every policy whose timeout is strictly negative, the derived cookie has
  an expiration set, and that expiration lies strictly before the clock reading of the
  call. The code at a timeout of -35791395 minutes, the first negative one whose product
  overflows \<^verbatim>\<open>int\<close>: the expiration is set, and a call at clock reading 0 puts it
  2147483596 seconds after the clock reading, not before it.
\<close>

theorem cookie_negative_timeout_overflow:
  "sint (timeout \<lparr>timeout = - 35791395, httpOnly = False, name = ''sid'', path = [],
                  secure = False, domain = []\<rparr>) < 0
   \<and> ck_expirationDate
        (cookie_static 0 \<lparr>timeout = - 35791395, httpOnly = False, name = ''sid'', path = [],
                          secure = False, domain = []\<rparr> ''v'')
        = Some (addSecs 0 2147483596)
   \<and> \<not> (addSecs 0 2147483596 < 0)"
  by (simp add: expiration_of_cookie addSecs_def)

text \<open>
  C10. The offset \<^verbatim>\<open>settings.timeout * 60\<close> is computed in 32-bit signed arithmetic: for
  every policy whose timeout exceeds \<^verbatim>\<open>INT_MAX / 60\<close> in magnitude the product wraps
  modulo \<open>2 ^ 32\<close> (it is congruent to, and different from, the product of the integers),
  and the expiration of the derived cookie is not the clock reading plus that many minutes.
\<close>

theorem cookie_timeout_overflow:
  "2147483647 div 60 < \<bar>sint (timeout settings)\<bar> \<Longrightarrow>
     sint (timeout settings * 60) mod 2 ^ 32 = (sint (timeout settings) * 60) mod 2 ^ 32
     \<and> sint (timeout settings * 60) \<noteq> sint (timeout settings) * 60
     \<and> ck_expirationDate (cookie_static now settings val)
         = Some (addSecs now (sint (timeout settings * 60)))
     \<and> ck_expirationDate (cookie_static now settings val)
         \<noteq> Some (addSecs now (sint (timeout settings) * 60))"
proof -
  assume big: "2147483647 div 60 < \<bar>sint (timeout settings)\<bar>"
  then have "timeout settings \<noteq> 0" by (intro sint_nonzero) simp
  then have set: "ck_expirationDate (cookie_static now settings val)
       = Some (addSecs now (sint (timeout settings * 60)))"
    by (simp add: expiration_of_cookie)
  from big have ne: "sint (timeout settings * 60) \<noteq> sint (timeout settings) * 60"
    by (intro timeout_product_wrapped) simp
  from set ne timeout_product_mod [of "timeout settings"] show ?thesis
    by (simp add: addSecs_inject)
qed

theorem cookie_timeout_overflow_witness:
  "2147483647 div 60
     < \<bar>sint (timeout \<lparr>timeout = 40000000, httpOnly = False, name = ''sid'', path = [],
                       secure = False, domain = []\<rparr>)\<bar>
   \<and> ck_expirationDate
        (cookie_static 0 \<lparr>timeout = 40000000, httpOnly = False, name = ''sid'', path = [],
                          secure = False, domain = []\<rparr> ''v'') = Some (- 1894967296000)
   \<and> (- 1894967296000 :: QDateTime) \<noteq> 40000000 * 60 * 1000"
  using cookie_timeout_overflow
    [of "\<lparr>timeout = 40000000, httpOnly = False, name = ''sid'', path = [], secure = False,
          domain = []\<rparr>" 0 "''v''"]
  by (simp add: addSecs_def)

subsection \<open>Scope, name and value\<close>

text \<open>
  C2. For every policy and value, the derived cookie carries a path exactly when the
  policy's path is non-empty, and then it is the policy's path; it carries a domain exactly
  when the policy's domain is non-empty, and then it is the policy's domain. When the
  policy's field is empty the attribute is left unset.
\<close>

theorem cookie_scope:
  "ck_path (cookie_static now settings val)
     = (if path settings = [] then None else Some (path settings))
   \<and> ck_domain (cookie_static now settings val)
     = (if domain settings = [] then None else Some (domain settings))"
  by (simp add: cookie_static_def Let_def setters)

text \<open>
  C4. For every policy, the derived cookie's name is the policy's name and its value is the
  value argument; when the value argument is omitted, the derived cookie's value is the
  empty byte array (and its name still the policy's name).
\<close>

theorem cookie_name_value:
  "ck_name (cookie_static now settings val) = name settings
   \<and> ck_value (cookie_static now settings val) = val
   \<and> ck_name (cookie_static_default now settings) = name settings
   \<and> ck_value (cookie_static_default now settings) = []"
  by (simp add: cookie_static_default_def cookie_static_def Let_def setters)

text \<open>
  C5. For every policy and every value, the member function, called on the policy, returns
  the same cookie as the static function called with that policy, at the same clock
  reading; so it does when the value is omitted in both.
\<close>

theorem cookie_member_is_static:
  "cookie now settings val = cookie_static now settings val
   \<and> cookie_default now settings = cookie_static_default now settings"
  by (simp add: cookie_def cookie_default_def cookie_static_default_def)

text \<open>
  C6. Derivation has no error path: for every policy and every value the function returns
  the cookie assembled from the clock reading, the policy and the value, and an empty name
  is not rejected but passed on as it is.
\<close>

theorem cookie_total:
  "cookie_static now settings val =
     \<lparr>ck_name = name settings, ck_value = val,
      ck_expirationDate =
        (if timeout settings = 0 then None
         else Some (addSecs now (sint (timeout settings * 60)))),
      ck_httpOnly = httpOnly settings, ck_secure = secure settings,
      ck_domain = (if domain settings = [] then None else Some (domain settings)),
      ck_path = (if path settings = [] then None else Some (path settings))\<rparr>
   \<and> ck_name (cookie_static now (settings\<lparr>name := []\<rparr>) val) = []"
  by (simp add: cookie_static_def Let_def setters)

text \<open>
  C8. Derivation is deterministic up to the clock: two calls with the same policy, the same
  value and the same clock reading return equal cookies. The clock reading is the only
  other input, and it reaches the expiration only: two calls at different clock readings
  agree on every attribute but the expiration, and on that one too when the timeout is 0.
\<close>

theorem cookie_deterministic:
  "(now = now' \<and> settings = settings' \<and> val = val' \<longrightarrow>
      cookie_static now settings val = cookie_static now' settings' val')
   \<and> cookie_static now settings val
       = (cookie_static now' settings val)
           \<lparr>ck_expirationDate := ck_expirationDate (cookie_static now settings val)\<rparr>
   \<and> (timeout settings = 0 \<longrightarrow>
        cookie_static now settings val = cookie_static now' settings val)"
  by (simp add: cookie_static_def Let_def setters)

theorem cookie_deterministic_witness:
  "timeout \<lparr>timeout = 0, httpOnly = True, name = ''sid'', path = ''/app'', secure = False,
            domain = ''example.com''\<rparr> = 0
   \<and> cookie_static 1000 \<lparr>timeout = 0, httpOnly = True, name = ''sid'', path = ''/app'',
                           secure = False, domain = ''example.com''\<rparr> ''abc123''
     = cookie_static 2000 \<lparr>timeout = 0, httpOnly = True, name = ''sid'', path = ''/app'',
                            secure = False, domain = ''example.com''\<rparr> ''abc123''"
  using cookie_deterministic
    [of 1000 1000 "\<lparr>timeout = 0, httpOnly = True, name = ''sid'', path = ''/app'',
                    secure = False, domain = ''example.com''\<rparr>"
        "\<lparr>timeout = 0, httpOnly = True, name = ''sid'', path = ''/app'',
          secure = False, domain = ''example.com''\<rparr>" "''abc123''" "''abc123''"]
    cookie_deterministic
    [of 1000 2000 "\<lparr>timeout = 0, httpOnly = True, name = ''sid'', path = ''/app'',
                    secure = False, domain = ''example.com''\<rparr>"
        "\<lparr>timeout = 0, httpOnly = True, name = ''sid'', path = ''/app'',
          secure = False, domain = ''example.com''\<rparr>" "''abc123''" "''abc123''"]
  by simp

subsection \<open>The path rule\<close>

lemma startsWith_prefix: "startsWith this ba = prefix ba this"
proof
  assume "startsWith this ba"
  then have "take (length ba) this = ba" by (simp add: startsWith_def)
  then show "prefix ba this" by (metis take_is_prefix)
next
  assume "prefix ba this"
  then obtain zs where "this = ba @ zs" by (auto simp: prefix_def)
  then show "startsWith this ba" by (simp add: startsWith_def)
qed

text \<open>
  C7. The rule of the header declares a cookie with path \<open>cookiePath\<close> applicable to a
  request path \<open>requestPath\<close> exactly when the two are equal, or \<open>requestPath\<close> starts with
  \<open>cookiePath\<close>, or \<open>requestPath\<close> starts with a slash and, with its first character
  removed, starts with \<open>cookiePath\<close>. For the cookie path \<open>/foo\<close> the request paths \<open>/foo\<close>,
  \<open>/foo/bar\<close> and \<open>//foo\<close> match and \<open>/bar\<close> does not.
\<close>

theorem path_rule:
  "path_included cookiePath requestPath = spec_path_applicable cookiePath requestPath
   \<and> path_included ''/foo'' ''/foo''
   \<and> path_included ''/foo'' ''/foo/bar''
   \<and> path_included ''/foo'' ''//foo''
   \<and> \<not> path_included ''/foo'' ''/bar''"
proof -
  have "path_included cookiePath requestPath = spec_path_applicable cookiePath requestPath"
    by (cases requestPath)
       (auto simp: path_included_def spec_path_applicable_def startsWith_prefix mid_def)
  moreover have "path_included ''/foo'' ''/foo''"
    by (simp add: path_included_def)
  moreover have "path_included ''/foo'' ''/foo/bar''"
    by (simp add: path_included_def startsWith_def)
  moreover have "path_included ''/foo'' ''//foo''"
    by (simp add: path_included_def startsWith_def mid_def)
  moreover have "\<not> path_included ''/foo'' ''/bar''"
    by (simp add: path_included_def startsWith_def mid_def)
  ultimately show ?thesis by simp
qed

end
